theory Spec2Isabelle
  imports Complex_Main "HOL-Library.Word"
begin

section \<open>Carbon emission monitor: calculator, activity monitor, history buffer\<close>

text \<open>
  The development embeds three Python modules: \<^verbatim>\<open>carbon_calculator.py\<close>
  (class \<^verbatim>\<open>CarbonCalculator\<close>), \<^verbatim>\<open>bpf_monitor.py\<close> (class
  \<^verbatim>\<open>BPFNetworkMonitor\<close>) and the collection loop of \<^verbatim>\<open>app.py\<close>.

  Conventions of the embedding:
  \<^item> Python \<^verbatim>\<open>int\<close> is \<^typ>\<open>int\<close>; Python \<^verbatim>\<open>float\<close> is idealised as
    \<^typ>\<open>real\<close>, so every formula is read with exact arithmetic and rounding of
    IEEE doubles is outside the model.
  \<^item> Whatever the operating system reports (wall clock, CPU load, memory, network
    counters, the process table) and whatever the probe library does is an explicit
    argument of the function that reads it.
  \<^item> An exception is a value: a function that can raise returns \<open>py_error + 'a\<close>.
  \<^item> Attribute mutation is state passing: a method takes the object and returns it
    updated.
\<close>

subsection \<open>Python values and exceptions\<close>

record bucket =
  packets :: int
  bytes :: int

datatype pyval =
    PyInt int
  | PyFloat real
  | PyStats "string \<rightharpoonup> bucket"
  | PyNone

text \<open>
  The exceptions of the model are subclasses of \<^verbatim>\<open>Exception\<close>, which is what the
  \<^verbatim>\<open>except Exception\<close> clauses of the source catch.
\<close>

datatype py_error =
    TypeError
  | KeyError
  | NoSuchProcess
  | AccessDenied
  | OtherException

text \<open>True division \<^verbatim>\<open>x / (1024 ** 3)\<close>: defined on numbers, a TypeError on anything else.\<close>

definition as_number :: "pyval \<Rightarrow> py_error + real" where
  "as_number v = (case v of PyInt i \<Rightarrow> Inr (real_of_int i) | PyFloat x \<Rightarrow> Inr x | _ \<Rightarrow> Inl TypeError)"

subsection \<open>The host as the calculator reads it\<close>

record virtual_memory =
  vm_percent :: real
  vm_used :: int
  vm_total :: int

text \<open>
  \<open>clock\<close> is what \<^verbatim>\<open>time.time()\<close> returns, \<open>cpu_load n\<close> what the \<open>n\<close>-th call of
  \<^verbatim>\<open>psutil.cpu_percent(interval=1)\<close> returns, \<open>cpu_calls\<close> the number of calls made
  so far and \<open>vmem\<close> the result of \<^verbatim>\<open>psutil.virtual_memory()\<close>.
\<close>

record host =
  clock :: real
  cpu_load :: "nat \<Rightarrow> real"
  cpu_calls :: nat
  vmem :: virtual_memory

definition cpu_percent :: "host \<Rightarrow> real \<times> host" where
  "cpu_percent h = (cpu_load h (cpu_calls h), h\<lparr>cpu_calls := Suc (cpu_calls h)\<rparr>)"

subsection \<open>carbon\_calculator.py\<close>

text \<open>
  The four coefficients are attributes assigned once in \<^verbatim>\<open>__init__\<close> and never
  reassigned; they are constants here. The mutable attributes are the record.
\<close>

definition GRID_CARBON_INTENSITY :: real where
  "GRID_CARBON_INTENSITY = 0.5"

definition CPU_TDP :: real where
  "CPU_TDP = 65"

definition NETWORK_POWER_PER_GB :: real where
  "NETWORK_POWER_PER_GB = 0.06"

definition IDLE_POWER :: real where
  "IDLE_POWER = 50"

record CarbonCalculator =
  start_time :: real
  total_carbon :: real

definition CarbonCalculator_init :: "host \<Rightarrow> CarbonCalculator" where
  "CarbonCalculator_init h = \<lparr>start_time = clock h, total_carbon = 0\<rparr>"

definition calculate_cpu_power :: "host \<Rightarrow> real \<times> host" where
  "calculate_cpu_power h =
     (let (cpu_pct, h1) = cpu_percent h;
          power_watts = IDLE_POWER + (CPU_TDP * (cpu_pct / 100))
      in (power_watts, h1))"

definition calculate_network_carbon :: "pyval \<Rightarrow> py_error + real" where
  "calculate_network_carbon bytes_transferred =
     (case as_number bytes_transferred of
        Inl e \<Rightarrow> Inl e
      | Inr b \<Rightarrow>
          (let gb_transferred = b / (1024 ^ 3);
               energy_kwh = gb_transferred * NETWORK_POWER_PER_GB;
               carbon_kg = energy_kwh * GRID_CARBON_INTENSITY
           in Inr (carbon_kg * 1000)))"

definition calculate_total_energy :: "real \<Rightarrow> host \<Rightarrow> real \<times> host" where
  "calculate_total_energy duration_hours h =
     (let (cpu_power, h1) = calculate_cpu_power h;
          energy_kwh = (cpu_power * duration_hours) / 1000
      in (energy_kwh, h1))"

record cpu_metrics =
  cpu_usage_percent :: real
  cpu_power_watts :: real
  cpu_energy_kwh :: real
  cpu_carbon_grams :: real

record network_metrics =
  net_total_gb :: real
  net_carbon_grams :: real

record memory_metrics =
  mem_usage_percent :: real
  mem_used_gb :: real
  mem_total_gb :: real

record total_metrics =
  total_carbon_grams :: real
  total_carbon_kg :: real
  runtime_hours :: real
  total_energy_kwh :: real

record carbon_metrics =
  cpu :: cpu_metrics
  network :: network_metrics
  memory :: memory_metrics
  totals :: total_metrics

text \<open>\<^verbatim>\<open>network_stats.get('total_bytes', 0)\<close>\<close>

definition get_total_bytes :: "(string \<rightharpoonup> pyval) \<Rightarrow> pyval" where
  "get_total_bytes network_stats =
     (case network_stats ''total_bytes'' of None \<Rightarrow> PyInt 0 | Some v \<Rightarrow> v)"

text \<open>
  \<^verbatim>\<open>get_carbon_metrics\<close> samples the CPU three times: once for the reported
  \<^verbatim>\<open>usage_percent\<close>, once inside \<^verbatim>\<open>calculate_cpu_power\<close> for \<^verbatim>\<open>power_watts\<close>,
  and once more inside \<^verbatim>\<open>calculate_total_energy\<close> for \<^verbatim>\<open>energy_kwh\<close>. The
  division \<^verbatim>\<open>total_bytes / (1024 ** 3)\<close> of the returned structure repeats the one
  that \<^verbatim>\<open>calculate_network_carbon\<close> has already performed.
\<close>

definition get_carbon_metrics ::
  "CarbonCalculator \<Rightarrow> host \<Rightarrow> (string \<rightharpoonup> pyval) \<Rightarrow>
     py_error + (carbon_metrics \<times> CarbonCalculator \<times> host)" where
  "get_carbon_metrics self h network_stats =
     (let run_hours = (clock h - start_time self) / 3600;
          (cpu_pct, h1) = cpu_percent h;
          (cpu_power, h2) = calculate_cpu_power h1;
          (cpu_energy, h3) = calculate_total_energy run_hours h2;
          cpu_carbon = cpu_energy * GRID_CARBON_INTENSITY * 1000;
          total_bytes = get_total_bytes network_stats
      in case calculate_network_carbon total_bytes of
           Inl e \<Rightarrow> Inl e
         | Inr network_carbon \<Rightarrow>
             (let mem = vmem h3;
                  memory_percent = vm_percent mem;
                  total_c = cpu_carbon + network_carbon;
                  self1 = self\<lparr>total_carbon := total_c\<rparr>
              in case as_number total_bytes of
                   Inl e \<Rightarrow> Inl e
                 | Inr b \<Rightarrow>
                     Inr (\<lparr>cpu = \<lparr>cpu_usage_percent = cpu_pct,
                                   cpu_power_watts = cpu_power,
                                   cpu_energy_kwh = cpu_energy,
                                   cpu_carbon_grams = cpu_carbon\<rparr>,
                           network = \<lparr>net_total_gb = b / (1024 ^ 3),
                                       net_carbon_grams = network_carbon\<rparr>,
                           memory = \<lparr>mem_usage_percent = memory_percent,
                                      mem_used_gb = real_of_int (vm_used mem) / (1024 ^ 3),
                                      mem_total_gb = real_of_int (vm_total mem) / (1024 ^ 3)\<rparr>,
                           totals = \<lparr>total_carbon_grams = total_c,
                                     total_carbon_kg = total_c / 1000,
                                     runtime_hours = run_hours,
                                     total_energy_kwh = cpu_energy\<rparr>\<rparr>,
                          self1, h3)))"

record savings_entry =
  name :: string
  description :: string
  potential_reduction_percent :: int
  estimated_savings_grams :: real

definition savings_reduce_cpu :: "CarbonCalculator \<Rightarrow> savings_entry" where
  "savings_reduce_cpu self =
     \<lparr>name = ''Reduce CPU Usage'',
      description = ''Limit background processes and CPU-intensive tasks'',
      potential_reduction_percent = 30,
      estimated_savings_grams = total_carbon self * 0.30\<rparr>"

definition savings_optimize_network :: "CarbonCalculator \<Rightarrow> savings_entry" where
  "savings_optimize_network self =
     \<lparr>name = ''Optimize Network Traffic'',
      description = ''Compress data, cache content, reduce unnecessary requests'',
      potential_reduction_percent = 25,
      estimated_savings_grams = total_carbon self * 0.25\<rparr>"

definition savings_power_management :: "CarbonCalculator \<Rightarrow> savings_entry" where
  "savings_power_management self =
     \<lparr>name = ''Enable Power Management'',
      description = ''Use power-saving modes, reduce screen brightness, sleep idle processes'',
      potential_reduction_percent = 40,
      estimated_savings_grams = total_carbon self * 0.40\<rparr>"

text \<open>The dictionary \<^verbatim>\<open>savings\<close> built on every call, keyed by the optimisation kind.\<close>

definition savings :: "CarbonCalculator \<Rightarrow> (string \<rightharpoonup> savings_entry)" where
  "savings self =
     [''reduce_cpu'' \<mapsto> savings_reduce_cpu self,
      ''optimize_network'' \<mapsto> savings_optimize_network self,
      ''power_management'' \<mapsto> savings_power_management self]"

definition estimate_savings :: "CarbonCalculator \<Rightarrow> string \<Rightarrow> savings_entry" where
  "estimate_savings self optimization_type =
     (case savings self optimization_type of
        Some entry \<Rightarrow> entry
      | None \<Rightarrow> savings_reduce_cpu self)"

subsection \<open>bpf\_monitor.py\<close>

text \<open>
  \<^verbatim>\<open>self.bpf\<close> is \<^verbatim>\<open>None\<close> or the probe object \<^verbatim>\<open>BPF(text=...)\<close>. The class
  \<^verbatim>\<open>BPF\<close> is the probe library's (bcc) and no part of the repository. The tests
  \<^verbatim>\<open>if self.bpf\<close> and \<^verbatim>\<open>if not self.bpf\<close> are Python truth tests: \<^verbatim>\<open>None\<close> is
  false, and a \<^verbatim>\<open>BPF\<close> object is true when its \<^verbatim>\<open>__len__\<close>, the number of tables in
  its table cache, is not zero. The cache is empty when the object is constructed and
  gets an entry when a table is indexed, as in \<^verbatim>\<open>self.bpf["events"]\<close>.
  \<open>truth_value\<close> says whether the cache is non-empty. The source indexes a table only
  behind \<^verbatim>\<open>if self.bpf\<close>, in \<^verbatim>\<open>_process_events\<close> and in the handler it registers
  there, where the cache is non-empty already.
\<close>

datatype BPF = BPF (truth_value: bool)

definition is_true :: "BPF option \<Rightarrow> bool" where
  "is_true obj = (case obj of None \<Rightarrow> False | Some b \<Rightarrow> truth_value b)"

record BPFNetworkMonitor =
  packet_count :: int
  bytes_sent :: int
  bytes_received :: int
  active_connections :: int
  process_stats :: "string \<rightharpoonup> bucket"
  running :: bool
  bpf :: "BPF option"

definition BPFNetworkMonitor_init :: BPFNetworkMonitor where
  "BPFNetworkMonitor_init =
     \<lparr>packet_count = 0, bytes_sent = 0, bytes_received = 0, active_connections = 0,
      process_stats = Map.empty, running = False, bpf = None\<rparr>"

text \<open>
  What the probe library does when asked: \<open>compile_raises\<close> is the exception of
  \<^verbatim>\<open>BPF(text=...)\<close>, \<open>attach_raises e\<close> the exception of
  \<^verbatim>\<open>attach_kprobe(event=e, ...)\<close>, \<open>thread_raises\<close> the exception of starting the
  event thread; \<open>None\<close> means the call returns. A constructed object has an empty
  table cache, so it is \<open>BPF False\<close>.
\<close>

record probe_backend =
  compile_raises :: "py_error option"
  attach_raises :: "string \<Rightarrow> py_error option"
  thread_raises :: "py_error option"

text \<open>
  The body of the \<^verbatim>\<open>try\<close> block of \<^verbatim>\<open>start_monitoring\<close>: the exception that
  leaves it, if any, and the object as the statements executed so far have left it.
\<close>

definition start_monitoring_try ::
  "probe_backend \<Rightarrow> BPFNetworkMonitor \<Rightarrow> py_error option \<times> BPFNetworkMonitor" where
  "start_monitoring_try be self =
     (case compile_raises be of
        Some e \<Rightarrow> (Some e, self)
      | None \<Rightarrow>
          (let self1 = self\<lparr>bpf := Some (BPF False)\<rparr>
           in case attach_raises be ''tcp_sendmsg'' of
                Some e \<Rightarrow> (Some e, self1)
              | None \<Rightarrow>
                  (case attach_raises be ''tcp_recvmsg'' of
                     Some e \<Rightarrow> (Some e, self1)
                   | None \<Rightarrow>
                       (case attach_raises be ''udp_sendmsg'' of
                          Some e \<Rightarrow> (Some e, self1)
                        | None \<Rightarrow>
                            (let self2 = self1\<lparr>running := True\<rparr>
                             in case thread_raises be of
                                  Some e \<Rightarrow> (Some e, self2)
                                | None \<Rightarrow> (None, self2))))))"

definition start_monitoring ::
  "probe_backend \<Rightarrow> BPFNetworkMonitor \<Rightarrow> py_error + (bool \<times> BPFNetworkMonitor)" where
  "start_monitoring be self =
     (case start_monitoring_try be self of
        (None, self') \<Rightarrow> Inr (True, self')
      | (Some e, self') \<Rightarrow> Inr (False, self'))"

text \<open>
  A decoded perf event: \<^verbatim>\<open>struct event_data_t\<close> with the fields the handler reads;
  \<open>ev_comm\<close> is \<^verbatim>\<open>event.comm.decode('utf-8', 'replace')\<close>.
\<close>

record event =
  ev_pid :: "32 word"
  ev_bytes :: "64 word"
  ev_comm :: string
  event_type :: "8 word"

text \<open>\<^verbatim>\<open>defaultdict(lambda: {'packets': 0, 'bytes': 0})\<close>: a missing key reads as the default.\<close>

definition default_bucket :: bucket where
  "default_bucket = \<lparr>packets = 0, bytes = 0\<rparr>"

definition bucket_of :: "(string \<rightharpoonup> bucket) \<Rightarrow> string \<Rightarrow> bucket" where
  "bucket_of stats comm = (case stats comm of None \<Rightarrow> default_bucket | Some b \<Rightarrow> b)"

definition handle_event :: "BPFNetworkMonitor \<Rightarrow> event \<Rightarrow> BPFNetworkMonitor" where
  "handle_event self ev =
     (let self1 = self\<lparr>packet_count := packet_count self + 1\<rparr>
      in if event_type ev = 1 \<or> event_type ev = 3 then
           (let self2 = self1\<lparr>bytes_sent := bytes_sent self1 + uint (ev_bytes ev)\<rparr>;
                comm = ev_comm ev;
                b = bucket_of (process_stats self2) comm;
                b1 = b\<lparr>packets := packets b + 1\<rparr>;
                b2 = b1\<lparr>bytes := bytes b1 + uint (ev_bytes ev)\<rparr>
            in self2\<lparr>process_stats := (process_stats self2)(comm \<mapsto> b2)\<rparr>)
         else if event_type ev = 2 then
           self1\<lparr>bytes_received := bytes_received self1 + 1024\<rparr>
         else self1)"

text \<open>One \<^verbatim>\<open>perf_buffer_poll\<close> delivers a batch of events to the handler, in order.\<close>

definition perf_buffer_poll :: "BPFNetworkMonitor \<Rightarrow> event list \<Rightarrow> BPFNetworkMonitor" where
  "perf_buffer_poll self batch = foldl handle_event self batch"

text \<open>
  \<^verbatim>\<open>_process_events\<close>: nothing unless \<^verbatim>\<open>self.bpf\<close> is true; otherwise one poll per
  iteration while \<^verbatim>\<open>self.running\<close>. The argument lists the batches of the polls that
  the run under consideration performs.
\<close>

fun poll_loop :: "BPFNetworkMonitor \<Rightarrow> event list list \<Rightarrow> BPFNetworkMonitor" where
  "poll_loop self [] = self"
| "poll_loop self (batch # rest) =
     (if running self then poll_loop (perf_buffer_poll self batch) rest else self)"

definition process_events :: "BPFNetworkMonitor \<Rightarrow> event list list \<Rightarrow> BPFNetworkMonitor" where
  "process_events self batches = (if is_true (bpf self) then poll_loop self batches else self)"

text \<open>
  The operating system as \<^verbatim>\<open>get_stats\<close> reads it: \<^verbatim>\<open>psutil.net_io_counters()\<close> and
  the length of \<^verbatim>\<open>psutil.net_connections()\<close>.
\<close>

record net_io =
  os_bytes_sent :: int
  os_bytes_recv :: int
  os_packets_sent :: int
  os_packets_recv :: int

record os_net =
  net_io_counters :: net_io
  net_connections :: nat

definition get_stats ::
  "os_net \<Rightarrow> BPFNetworkMonitor \<Rightarrow> (string \<rightharpoonup> pyval) \<times> BPFNetworkMonitor" where
  "get_stats os self =
     (let self1 =
            (if \<not> is_true (bpf self) then
               (let io = net_io_counters os
                in self\<lparr>packet_count := os_packets_sent io + os_packets_recv io,
                        bytes_sent := os_bytes_sent io,
                        bytes_received := os_bytes_recv io\<rparr>)
             else self);
          self2 = self1\<lparr>active_connections := int (net_connections os)\<rparr>
      in ([''packet_count'' \<mapsto> PyInt (packet_count self2),
           ''bytes_sent'' \<mapsto> PyInt (bytes_sent self2),
           ''bytes_received'' \<mapsto> PyInt (bytes_received self2),
           ''total_bytes'' \<mapsto> PyInt (bytes_sent self2 + bytes_received self2),
           ''active_connections'' \<mapsto> PyInt (active_connections self2),
           ''process_stats'' \<mapsto> PyStats (process_stats self2)],
          self2))"

text \<open>
  \<^verbatim>\<open>get_stats\<close> in the pieces that other threads can come between. The monitor is
  shared by the collection thread, the request handlers and the event thread, and
  \<^verbatim>\<open>get_stats\<close> takes the lock twice: \<open>get_stats_store\<close> is the truth test, the
  reading of the operating system and the first \<^verbatim>\<open>with self.lock\<close> block,
  \<open>get_stats_connections\<close> the assignment of \<^verbatim>\<open>active_connections\<close>, made outside
  the lock, and \<open>get_stats_snapshot\<close> the second \<^verbatim>\<open>with self.lock\<close> block, which
  builds the dictionary.
\<close>

definition get_stats_store :: "os_net \<Rightarrow> BPFNetworkMonitor \<Rightarrow> BPFNetworkMonitor" where
  "get_stats_store os self =
     (if \<not> is_true (bpf self) then
        (let io = net_io_counters os
         in self\<lparr>packet_count := os_packets_sent io + os_packets_recv io,
                 bytes_sent := os_bytes_sent io,
                 bytes_received := os_bytes_recv io\<rparr>)
      else self)"

definition get_stats_connections :: "os_net \<Rightarrow> BPFNetworkMonitor \<Rightarrow> BPFNetworkMonitor" where
  "get_stats_connections os self = self\<lparr>active_connections := int (net_connections os)\<rparr>"

definition get_stats_snapshot :: "BPFNetworkMonitor \<Rightarrow> (string \<rightharpoonup> pyval)" where
  "get_stats_snapshot self =
     [''packet_count'' \<mapsto> PyInt (packet_count self),
      ''bytes_sent'' \<mapsto> PyInt (bytes_sent self),
      ''bytes_received'' \<mapsto> PyInt (bytes_received self),
      ''total_bytes'' \<mapsto> PyInt (bytes_sent self + bytes_received self),
      ''active_connections'' \<mapsto> PyInt (active_connections self),
      ''process_stats'' \<mapsto> PyStats (process_stats self)]"

text \<open>
  What another thread does to the monitor in one atomic piece: the event thread handles
  the batch of one poll, or another \<^verbatim>\<open>get_stats\<close> call stores its reading, or assigns
  \<^verbatim>\<open>active_connections\<close>. (The second lock section of another call changes nothing.)
\<close>

datatype step =
    Poll "event list"
  | Store os_net
  | Connections os_net

fun other_step :: "BPFNetworkMonitor \<Rightarrow> step \<Rightarrow> BPFNetworkMonitor" where
  "other_step self (Poll batch) = process_events self [batch]"
| "other_step self (Store os) = get_stats_store os self"
| "other_step self (Connections os) = get_stats_connections os self"

definition run :: "BPFNetworkMonitor \<Rightarrow> step list \<Rightarrow> BPFNetworkMonitor" where
  "run self steps = foldl other_step self steps"

text \<open>
  A \<^verbatim>\<open>get_stats\<close> call with the steps \<open>xs\<close> of other threads between its store and
  its assignment of \<^verbatim>\<open>active_connections\<close>, and the steps \<open>ys\<close> between that
  assignment and its second lock section.
\<close>

definition interleaved_get_stats ::
  "os_net \<Rightarrow> step list \<Rightarrow> step list \<Rightarrow> BPFNetworkMonitor \<Rightarrow>
     (string \<rightharpoonup> pyval) \<times> BPFNetworkMonitor" where
  "interleaved_get_stats os xs ys self =
     (let self1 = run (get_stats_store os self) xs;
          self2 = run (get_stats_connections os self1) ys
      in (get_stats_snapshot self2, self2))"

text \<open>No step of the list is the store of another \<^verbatim>\<open>get_stats\<close> call.\<close>

fun is_store :: "step \<Rightarrow> bool" where
  "is_store (Store os) = True"
| "is_store (Poll batch) = False"
| "is_store (Connections os) = False"

definition no_store :: "step list \<Rightarrow> bool" where
  "no_store steps = (filter is_store steps = [])"

text \<open>
  \<^verbatim>\<open>get_process_list\<close>. \<^verbatim>\<open>psutil.process_iter(attrs)\<close> belongs to psutil and is no
  part of the repository. For every process it enumerates it stores
  \<^verbatim>\<open>proc.info = proc.as_dict(attrs, ad_value=None)\<close> before it yields the process: a
  process that vanishes meanwhile (\<^verbatim>\<open>NoSuchProcess\<close>) is dropped by \<^verbatim>\<open>process_iter\<close>
  itself, and an attribute whose read is denied (\<^verbatim>\<open>AccessDenied\<close>) is stored as
  \<^verbatim>\<open>None\<close>. Reading \<^verbatim>\<open>proc.info\<close> afterwards is reading a stored dictionary.
\<close>

record proc_info =
  info_pid :: int
  info_name :: "string option"
  info_cpu_percent :: "real option"
  info_memory_percent :: "real option"

datatype os_process =
    Vanished
  | Present proc_info

fun process_iter :: "os_process list \<Rightarrow> proc_info list" where
  "process_iter [] = []"
| "process_iter (Vanished # rest) = process_iter rest"
| "process_iter (Present pinfo # rest) = pinfo # process_iter rest"

text \<open>\<^verbatim>\<open>pinfo = proc.info\<close>, the first statement of the \<^verbatim>\<open>try\<close> block.\<close>

definition read_info :: "proc_info \<Rightarrow> py_error + proc_info" where
  "read_info pinfo = Inr pinfo"

record process_entry =
  pid :: int
  pname :: "string option"
  pcpu :: "real option"
  pmemory :: "real option"

text \<open>
  The loop over what the \<^verbatim>\<open>try\<close> block meets for each process. The \<^verbatim>\<open>except\<close>
  clause names two exception classes; any other propagates.
\<close>

fun process_iter_loop ::
  "process_entry list \<Rightarrow> (py_error + proc_info) list \<Rightarrow> py_error + process_entry list" where
  "process_iter_loop processes [] = Inr processes"
| "process_iter_loop processes (Inr pinfo # rest) =
     process_iter_loop
       (processes @ [\<lparr>pid = info_pid pinfo, pname = info_name pinfo,
                       pcpu = info_cpu_percent pinfo, pmemory = info_memory_percent pinfo\<rparr>])
       rest"
| "process_iter_loop processes (Inl e # rest) =
     (if e = NoSuchProcess \<or> e = AccessDenied then process_iter_loop processes rest
      else Inl e)"

text \<open>
  \<^verbatim>\<open>sorted(processes, key=lambda x: x['cpu'], reverse=True)\<close> compares the keys with
  \<^verbatim>\<open><\<close>. A list of fewer than two elements is returned without a comparison. In a
  longer list every key is compared with another at least once, and a comparison with
  \<^verbatim>\<open>None\<close> raises \<^verbatim>\<open>TypeError\<close>. On numbers the result is the stable sort into
  descending key order: ascending order of the negated key, ties in their original order.
\<close>

definition sorted_by_cpu_desc :: "process_entry list \<Rightarrow> py_error + process_entry list" where
  "sorted_by_cpu_desc processes =
     (if length processes \<le> 1 then Inr processes
      else if list_ex (\<lambda>x. pcpu x = None) processes then Inl TypeError
      else Inr (sort_key (\<lambda>x. - the (pcpu x)) processes))"

definition get_process_list :: "os_process list \<Rightarrow> py_error + process_entry list" where
  "get_process_list table =
     (case process_iter_loop [] (map read_info (process_iter table)) of
        Inl e \<Rightarrow> Inl e
      | Inr processes \<Rightarrow>
          (case sorted_by_cpu_desc processes of
             Inl e \<Rightarrow> Inl e
           | Inr ordered \<Rightarrow> Inr (take 20 ordered)))"

subsection \<open>app.py: the collection loop and the history series\<close>

record historical_data =
  timestamps :: "string list"
  cpu_usage :: "real list"
  network_bytes :: "real list"
  carbon_emissions :: "real list"
  energy_consumption :: "real list"

definition historical_data_init :: historical_data where
  "historical_data_init =
     \<lparr>timestamps = [], cpu_usage = [], network_bytes = [], carbon_emissions = [],
      energy_consumption = []\<rparr>"

text \<open>\<^verbatim>\<open>if len(xs) > 100: xs = xs[-100:]\<close>\<close>

definition keep_last_100 :: "'a list \<Rightarrow> 'a list" where
  "keep_last_100 xs = (if length xs > 100 then drop (length xs - 100) xs else xs)"

definition trim_history :: "historical_data \<Rightarrow> historical_data" where
  "trim_history hist =
     \<lparr>timestamps = keep_last_100 (timestamps hist),
      cpu_usage = keep_last_100 (cpu_usage hist),
      network_bytes = keep_last_100 (network_bytes hist),
      carbon_emissions = keep_last_100 (carbon_emissions hist),
      energy_consumption = keep_last_100 (energy_consumption hist)\<rparr>"

text \<open>The subscript \<^verbatim>\<open>d[k]\<close> of a dictionary.\<close>

definition subscript :: "(string \<rightharpoonup> pyval) \<Rightarrow> string \<Rightarrow> py_error + pyval" where
  "subscript d k = (case d k of None \<Rightarrow> Inl KeyError | Some v \<Rightarrow> Inr v)"

text \<open>
  What one iteration of \<^verbatim>\<open>collect_data\<close> finds: the shared monitor and calculator
  objects (other threads use them between iterations), the operating system's answers,
  the string \<^verbatim>\<open>datetime.now().strftime('%H:%M:%S')\<close>, and \<open>sys_raises\<close>, the
  exception, if any, with which a system query inside \<^verbatim>\<open>get_stats\<close> or
  \<^verbatim>\<open>get_carbon_metrics\<close> fails.
\<close>

record cycle =
  cy_monitor :: BPFNetworkMonitor
  cy_calculator :: CarbonCalculator
  cy_os :: os_net
  cy_host :: host
  current_time :: string
  sys_raises :: "py_error option"

text \<open>
  The body of the \<^verbatim>\<open>try\<close> block: the exception that leaves it, if any, and the
  history as the statements executed so far have left it.
\<close>

definition collect_data_try ::
  "historical_data \<Rightarrow> cycle \<Rightarrow> py_error option \<times> historical_data" where
  "collect_data_try hist c =
     (case sys_raises c of
        Some e \<Rightarrow> (Some e, hist)
      | None \<Rightarrow>
          (let (net_stats, mon1) = get_stats (cy_os c) (cy_monitor c)
           in case get_carbon_metrics (cy_calculator c) (cy_host c) net_stats of
                Inl e \<Rightarrow> (Some e, hist)
              | Inr (metrics, calc1, host1) \<Rightarrow>
                  (let hist1 = hist\<lparr>timestamps := timestamps hist @ [current_time c]\<rparr>;
                       hist2 = hist1\<lparr>cpu_usage := cpu_usage hist1 @ [cpu_usage_percent (cpu metrics)]\<rparr>
                   in case subscript net_stats ''total_bytes'' of
                        Inl e \<Rightarrow> (Some e, hist2)
                      | Inr tb \<Rightarrow>
                          (case as_number tb of
                             Inl e \<Rightarrow> (Some e, hist2)
                           | Inr b \<Rightarrow>
                               (let hist3 = hist2\<lparr>network_bytes :=
                                            network_bytes hist2 @ [b / (1024 * 1024)]\<rparr>;
                                    hist4 = hist3\<lparr>carbon_emissions :=
                                            carbon_emissions hist3
                                              @ [total_carbon_grams (totals metrics)]\<rparr>;
                                    hist5 = hist4\<lparr>energy_consumption :=
                                            energy_consumption hist4
                                              @ [total_energy_kwh (totals metrics) * 1000]\<rparr>
                                in (None, trim_history hist5))))))"

text \<open>\<^verbatim>\<open>except Exception\<close> prints and the loop goes on with the history as it is.\<close>

definition collect_cycle :: "historical_data \<Rightarrow> cycle \<Rightarrow> historical_data" where
  "collect_cycle hist c = snd (collect_data_try hist c)"

text \<open>The loop, run for the iterations listed.\<close>

fun collect_data :: "historical_data \<Rightarrow> cycle list \<Rightarrow> historical_data" where
  "collect_data hist [] = hist"
| "collect_data hist (c # cs) = collect_data (collect_cycle hist c) cs"

text \<open>
  Reference for the history claims: the point a cycle contributes, read off the values
  \<^verbatim>\<open>get_stats\<close> and \<^verbatim>\<open>get_carbon_metrics\<close> return in it, and the list of all
  points contributed by a run, in arrival order and never trimmed.
\<close>

record history_point =
  pt_timestamp :: string
  pt_cpu_usage :: real
  pt_network_mb :: real
  pt_carbon_grams :: real
  pt_energy_wh :: real

definition cycle_point :: "cycle \<Rightarrow> history_point option" where
  "cycle_point c =
     (case sys_raises c of
        Some e \<Rightarrow> None
      | None \<Rightarrow>
          (let io_stats = fst (get_stats (cy_os c) (cy_monitor c))
           in case get_carbon_metrics (cy_calculator c) (cy_host c) io_stats of
                Inl e \<Rightarrow> None
              | Inr (metrics, calc1, host1) \<Rightarrow>
                  (case io_stats ''total_bytes'' of
                     Some (PyInt n) \<Rightarrow>
                       Some \<lparr>pt_timestamp = current_time c,
                             pt_cpu_usage = cpu_usage_percent (cpu metrics),
                             pt_network_mb = real_of_int n / (1024 * 1024),
                             pt_carbon_grams = total_carbon_grams (totals metrics),
                             pt_energy_wh = total_energy_kwh (totals metrics) * 1000\<rparr>
                   | _ \<Rightarrow> None)))"

definition appended_points :: "cycle list \<Rightarrow> history_point list" where
  "appended_points cs = List.map_filter cycle_point cs"

definition last_100 :: "'a list \<Rightarrow> 'a list" where
  "last_100 xs = drop (length xs - 100) xs"

subsection \<open>Reading snapshots\<close>

text \<open>The integer stored under a key of a snapshot, if there is one.\<close>

definition snapshot_int :: "(string \<rightharpoonup> pyval) \<Rightarrow> string \<Rightarrow> int option" where
  "snapshot_int d k = (case d k of Some (PyInt n) \<Rightarrow> Some n | _ \<Rightarrow> None)"

definition field_le :: "(string \<rightharpoonup> pyval) \<Rightarrow> (string \<rightharpoonup> pyval) \<Rightarrow> string \<Rightarrow> bool" where
  "field_le d1 d2 k =
     (case (snapshot_int d1 k, snapshot_int d2 k) of
        (Some a, Some b) \<Rightarrow> a \<le> b
      | _ \<Rightarrow> False)"

text \<open>The three cumulative counters of the second snapshot are not below the first's.\<close>

definition counters_le :: "(string \<rightharpoonup> pyval) \<Rightarrow> (string \<rightharpoonup> pyval) \<Rightarrow> bool" where
  "counters_le d1 d2 =
     (field_le d1 d2 ''bytes_sent'' \<and> field_le d1 d2 ''bytes_received''
      \<and> field_le d1 d2 ''packet_count'')"

text \<open>The same for two readings of the operating system's counters.\<close>

definition os_counters_le :: "os_net \<Rightarrow> os_net \<Rightarrow> bool" where
  "os_counters_le os1 os2 =
     (os_bytes_sent (net_io_counters os1) \<le> os_bytes_sent (net_io_counters os2)
      \<and> os_bytes_recv (net_io_counters os1) \<le> os_bytes_recv (net_io_counters os2)
      \<and> os_packets_sent (net_io_counters os1) + os_packets_recv (net_io_counters os1)
          \<le> os_packets_sent (net_io_counters os2) + os_packets_recv (net_io_counters os2))"

text \<open>The entry \<^verbatim>\<open>get_process_list\<close> builds from the attributes of a process.\<close>

definition entry_of :: "proc_info \<Rightarrow> process_entry" where
  "entry_of pinfo =
     \<lparr>pid = info_pid pinfo, pname = info_name pinfo,
      pcpu = info_cpu_percent pinfo, pmemory = info_memory_percent pinfo\<rparr>"

text \<open>Every entry has a number as CPU usage, and the numbers descend.\<close>

definition cpu_descending :: "process_entry list \<Rightarrow> bool" where
  "cpu_descending ps =
     (list_all (\<lambda>x. pcpu x \<noteq> None) ps \<and> sorted_wrt (\<lambda>a b. the (pcpu a) \<ge> the (pcpu b)) ps)"

text \<open>The metrics structure a call returns, if it returns.\<close>

definition returned_metrics ::
  "py_error + (carbon_metrics \<times> CarbonCalculator \<times> host) \<Rightarrow> carbon_metrics option" where
  "returned_metrics r = (case r of Inl e \<Rightarrow> None | Inr (m, self', h') \<Rightarrow> Some m)"

text \<open>
  The second monitor has counters no smaller than the first's and the same probe
  object.
\<close>

definition mon_le :: "BPFNetworkMonitor \<Rightarrow> BPFNetworkMonitor \<Rightarrow> bool" where
  "mon_le m1 m2 =
     (packet_count m1 \<le> packet_count m2 \<and> bytes_sent m1 \<le> bytes_sent m2
      \<and> bytes_received m1 \<le> bytes_received m2 \<and> bpf m2 = bpf m1)"

text \<open>The second monitor has the counters, the buckets and the probe object of the first.\<close>

definition mon_same :: "BPFNetworkMonitor \<Rightarrow> BPFNetworkMonitor \<Rightarrow> bool" where
  "mon_same m1 m2 =
     (packet_count m2 = packet_count m1 \<and> bytes_sent m2 = bytes_sent m1
      \<and> bytes_received m2 = bytes_received m1 \<and> process_stats m2 = process_stats m1
      \<and> bpf m2 = bpf m1)"

text \<open>The snapshot that mirrors a reading of the operating system, with no buckets.\<close>

definition mirrored_snapshot :: "os_net \<Rightarrow> (string \<rightharpoonup> pyval)" where
  "mirrored_snapshot os =
     [''packet_count'' \<mapsto>
        PyInt (os_packets_sent (net_io_counters os) + os_packets_recv (net_io_counters os)),
      ''bytes_sent'' \<mapsto> PyInt (os_bytes_sent (net_io_counters os)),
      ''bytes_received'' \<mapsto> PyInt (os_bytes_recv (net_io_counters os)),
      ''total_bytes'' \<mapsto>
        PyInt (os_bytes_sent (net_io_counters os) + os_bytes_recv (net_io_counters os)),
      ''active_connections'' \<mapsto> PyInt (int (net_connections os)),
      ''process_stats'' \<mapsto> PyStats Map.empty]"

text \<open>A history with one more point in every series, and the history of a list of points.\<close>

definition append_point :: "historical_data \<Rightarrow> history_point \<Rightarrow> historical_data" where
  "append_point hist p =
     \<lparr>timestamps = timestamps hist @ [pt_timestamp p],
      cpu_usage = cpu_usage hist @ [pt_cpu_usage p],
      network_bytes = network_bytes hist @ [pt_network_mb p],
      carbon_emissions = carbon_emissions hist @ [pt_carbon_grams p],
      energy_consumption = energy_consumption hist @ [pt_energy_wh p]\<rparr>"

definition history_of :: "history_point list \<Rightarrow> historical_data" where
  "history_of pts =
     \<lparr>timestamps = last_100 (map pt_timestamp pts),
      cpu_usage = last_100 (map pt_cpu_usage pts),
      network_bytes = last_100 (map pt_network_mb pts),
      carbon_emissions = last_100 (map pt_carbon_grams pts),
      energy_consumption = last_100 (map pt_energy_wh pts)\<rparr>"

subsection \<open>Concrete inputs\<close>

text \<open>A host whose clock reads \<open>t\<close> and whose CPU readings are given by \<open>load\<close>.\<close>

definition example_host :: "real \<Rightarrow> (nat \<Rightarrow> real) \<Rightarrow> host" where
  "example_host t load =
     \<lparr>clock = t, cpu_load = load, cpu_calls = 0,
      vmem = \<lparr>vm_percent = 0, vm_used = 0, vm_total = 0\<rparr>\<rparr>"

text \<open>CPU readings \<open>a\<close>, \<open>b\<close>, then \<open>c\<close> for ever.\<close>

fun three_loads :: "real \<Rightarrow> real \<Rightarrow> real \<Rightarrow> nat \<Rightarrow> real" where
  "three_loads a b c 0 = a"
| "three_loads a b c (Suc 0) = b"
| "three_loads a b c (Suc (Suc n)) = c"

text \<open>An operating system that reports the given byte counters.\<close>

definition os_with :: "int \<Rightarrow> int \<Rightarrow> os_net" where
  "os_with sent recv =
     \<lparr>net_io_counters = \<lparr>os_bytes_sent = sent, os_bytes_recv = recv,
                          os_packets_sent = 0, os_packets_recv = 0\<rparr>,
      net_connections = 0\<rparr>"

text \<open>A calculator constructed when the clock read 0.\<close>

definition example_calculator :: CarbonCalculator where
  "example_calculator = \<lparr>start_time = 0, total_carbon = 0\<rparr>"

text \<open>
  The \<open>n\<close>-th cycle of an idle host one hour after the calculator's construction,
  stamped with the one-character string of code \<open>n\<close>.
\<close>

definition example_cycle :: "nat \<Rightarrow> cycle" where
  "example_cycle n =
     \<lparr>cy_monitor = BPFNetworkMonitor_init, cy_calculator = example_calculator,
      cy_os = os_with 0 0, cy_host = example_host 3600 (three_loads 0 0 0),
      current_time = [char_of n], sys_raises = None\<rparr>"

definition example_point :: "nat \<Rightarrow> history_point" where
  "example_point n =
     \<lparr>pt_timestamp = [char_of n], pt_cpu_usage = 0, pt_network_mb = 0,
      pt_carbon_grams = 25, pt_energy_wh = 50\<rparr>"

definition example_proc :: "int \<Rightarrow> real option \<Rightarrow> proc_info" where
  "example_proc p c =
     \<lparr>info_pid = p, info_name = Some ''proc'', info_cpu_percent = c,
      info_memory_percent = Some 0\<rparr>"

definition example_event :: "8 word \<Rightarrow> 64 word \<Rightarrow> event" where
  "example_event kind n = \<lparr>ev_pid = 7, ev_bytes = n, ev_comm = ''curl'', event_type = kind\<rparr>"

text \<open>
  A probe library that cannot compile the program, and one that compiles it and raises
  on the attachment to the given kernel function.
\<close>

definition compile_failing_backend :: probe_backend where
  "compile_failing_backend =
     \<lparr>compile_raises = Some OtherException, attach_raises = (\<lambda>e. None), thread_raises = None\<rparr>"

definition attach_failing_backend :: "string \<Rightarrow> probe_backend" where
  "attach_failing_backend fn =
     \<lparr>compile_raises = None,
      attach_raises = (\<lambda>e. if e = fn then Some OtherException else None),
      thread_raises = None\<rparr>"

section \<open>Properties\<close>

lemmas calc_defs = get_carbon_metrics_def calculate_total_energy_def calculate_cpu_power_def
  calculate_network_carbon_def cpu_percent_def get_total_bytes_def as_number_def
  GRID_CARBON_INTENSITY_def CPU_TDP_def NETWORK_POWER_PER_GB_def IDLE_POWER_def

subsection \<open>The calculator\<close>

text \<open>
  C1, as stated, fails: the call takes three CPU readings and the claim conditions on
  one. One hour after construction, with \<^verbatim>\<open>total_bytes\<close> = 1000000000 and a first
  reading of 0 percent, readings 0, 100, 0 give \<^verbatim>\<open>usage_percent\<close> 0 with
  \<^verbatim>\<open>power_watts\<close> 115, not 50, and readings 0, 0, 100 give \<^verbatim>\<open>usage_percent\<close> 0 with
  \<^verbatim>\<open>energy_kwh\<close> 0.115 and \<^verbatim>\<open>carbon_grams\<close> 57.5, not 0.05 and 25.
\<close>

theorem scenario_later_readings_matter:
  "clock (example_host 3600 (three_loads 0 100 0)) - start_time example_calculator = 3600
   \<and> fst (get_stats (os_with 500000000 500000000) BPFNetworkMonitor_init) ''total_bytes''
     = Some (PyInt 1000000000)
   \<and> map_option cpu (returned_metrics
      (get_carbon_metrics example_calculator (example_host 3600 (three_loads 0 100 0))
         (fst (get_stats (os_with 500000000 500000000) BPFNetworkMonitor_init))))
     = Some \<lparr>cpu_usage_percent = 0, cpu_power_watts = 115, cpu_energy_kwh = 0.05,
             cpu_carbon_grams = 25\<rparr>
   \<and> map_option cpu (returned_metrics
      (get_carbon_metrics example_calculator (example_host 3600 (three_loads 0 0 100))
         (fst (get_stats (os_with 500000000 500000000) BPFNetworkMonitor_init))))
     = Some \<lparr>cpu_usage_percent = 0, cpu_power_watts = 50, cpu_energy_kwh = 0.115,
             cpu_carbon_grams = 57.5\<rparr>
   \<and> (115 :: real) \<noteq> 50 \<and> (0.115 :: real) \<noteq> 0.05 \<and> (57.5 :: real) \<noteq> 25"
  by (simp add: calc_defs returned_metrics_def example_host_def example_calculator_def
        get_stats_def os_with_def BPFNetworkMonitor_init_def is_true_def Let_def)

text \<open>
  C1, amended. A call of \<^verbatim>\<open>get_carbon_metrics\<close> in which every CPU reading of the
  call is 0 percent (the call takes three: the reported one, one inside
  \<^verbatim>\<open>calculate_cpu_power\<close> and one inside \<^verbatim>\<open>calculate_total_energy\<close>), the clock is exactly 3600 seconds past the
  calculator's start time, and the snapshot has \<^verbatim>\<open>total_bytes\<close> = 500000000 +
  500000000, returns metrics with \<^verbatim>\<open>cpu.power_watts\<close> = 50, \<^verbatim>\<open>cpu.energy_kwh\<close> =
  0.05, \<^verbatim>\<open>cpu.carbon_grams\<close> = 25, \<^verbatim>\<open>network.carbon_grams\<close> =
  (10^9 / 2^30) * 0.06 * 0.5 * 1000, which is within 0.01 of 27.94, and
  \<^verbatim>\<open>total.carbon_grams\<close> the sum of the two, within 0.01 of 52.94.
\<close>

theorem carbon_metrics_scenario:
  assumes "cpu_load h (cpu_calls h) = 0"
      and "cpu_load h (Suc (cpu_calls h)) = 0"
      and "cpu_load h (Suc (Suc (cpu_calls h))) = 0"
      and "clock h - start_time self = 3600"
      and "network_stats ''total_bytes'' = Some (PyInt (500000000 + 500000000))"
  shows "\<exists>m self' h'. get_carbon_metrics self h network_stats = Inr (m, self', h')
      \<and> cpu_power_watts (cpu m) = 50
      \<and> cpu_energy_kwh (cpu m) = 0.05
      \<and> cpu_carbon_grams (cpu m) = 25
      \<and> net_carbon_grams (network m) = (10 ^ 9 / 2 ^ 30) * 0.06 * 0.5 * 1000
      \<and> total_carbon_grams (totals m) = cpu_carbon_grams (cpu m) + net_carbon_grams (network m)
      \<and> \<bar>net_carbon_grams (network m) - 27.94\<bar> < 0.01
      \<and> \<bar>total_carbon_grams (totals m) - 52.94\<bar> < 0.01"
  using assms by (simp add: calc_defs Let_def)

text \<open>
  Witness for C1: the snapshot that \<^verbatim>\<open>get_stats\<close> returns in polling mode when the
  operating system reports 500000000 bytes sent and as many received, on an idle host
  one hour after the calculator's construction.
\<close>

theorem carbon_metrics_scenario_witness:
  "returned_metrics
     (get_carbon_metrics example_calculator (example_host 3600 (three_loads 0 0 0))
        (fst (get_stats (os_with 500000000 500000000) BPFNetworkMonitor_init)))
   = Some \<lparr>cpu = \<lparr>cpu_usage_percent = 0, cpu_power_watts = 50, cpu_energy_kwh = 0.05,
                  cpu_carbon_grams = 25\<rparr>,
           network = \<lparr>net_total_gb = 10 ^ 9 / 2 ^ 30,
                      net_carbon_grams = (10 ^ 9 / 2 ^ 30) * 0.06 * 0.5 * 1000\<rparr>,
           memory = \<lparr>mem_usage_percent = 0, mem_used_gb = 0, mem_total_gb = 0\<rparr>,
           totals = \<lparr>total_carbon_grams = 25 + (10 ^ 9 / 2 ^ 30) * 0.06 * 0.5 * 1000,
                     total_carbon_kg = (25 + (10 ^ 9 / 2 ^ 30) * 0.06 * 0.5 * 1000) / 1000,
                     runtime_hours = 1, total_energy_kwh = 0.05\<rparr>\<rparr>"
proof -
  let ?h = "example_host 3600 (three_loads 0 0 0)"
  let ?ns = "fst (get_stats (os_with 500000000 500000000) BPFNetworkMonitor_init)"
  have a: "cpu_load ?h (cpu_calls ?h) = 0" "cpu_load ?h (Suc (cpu_calls ?h)) = 0"
    "cpu_load ?h (Suc (Suc (cpu_calls ?h))) = 0"
    by (simp_all add: example_host_def)
  have b: "clock ?h - start_time example_calculator = 3600"
    by (simp add: example_host_def example_calculator_def)
  have c: "?ns ''total_bytes'' = Some (PyInt (500000000 + 500000000))"
    by (simp add: get_stats_def os_with_def BPFNetworkMonitor_init_def is_true_def Let_def)
  from carbon_metrics_scenario[where h = ?h and self = example_calculator
      and network_stats = ?ns, OF a b c]
  obtain m self' h' where r: "get_carbon_metrics example_calculator ?h ?ns = Inr (m, self', h')"
    by blast
  from c r show ?thesis
    by (simp add: calc_defs returned_metrics_def example_host_def example_calculator_def Let_def)
qed

text \<open>
  C10. When the snapshot has no \<^verbatim>\<open>total_bytes\<close> key, \<^verbatim>\<open>get_carbon_metrics\<close> returns
  (it does not raise), with \<^verbatim>\<open>network.total_gb\<close> = 0, \<^verbatim>\<open>network.carbon_grams\<close> = 0
  and \<^verbatim>\<open>total.carbon_grams\<close> equal to \<^verbatim>\<open>cpu.carbon_grams\<close>.
\<close>

theorem carbon_metrics_missing_total_bytes:
  assumes "network_stats ''total_bytes'' = None"
  shows "\<exists>m self' h'. get_carbon_metrics self h network_stats = Inr (m, self', h')
      \<and> net_total_gb (network m) = 0
      \<and> net_carbon_grams (network m) = 0
      \<and> total_carbon_grams (totals m) = cpu_carbon_grams (cpu m)"
  using assms by (simp add: calc_defs Let_def)

text \<open>
  Witness for C10: a snapshot with the two byte counters and no total, on a host at
  full load for one hour.
\<close>

theorem carbon_metrics_missing_total_bytes_witness:
  "returned_metrics
     (get_carbon_metrics example_calculator (example_host 3600 (three_loads 100 100 100))
        [''bytes_sent'' \<mapsto> PyInt 7, ''bytes_received'' \<mapsto> PyInt 9])
   = Some \<lparr>cpu = \<lparr>cpu_usage_percent = 100, cpu_power_watts = 115, cpu_energy_kwh = 0.115,
                  cpu_carbon_grams = 57.5\<rparr>,
           network = \<lparr>net_total_gb = 0, net_carbon_grams = 0\<rparr>,
           memory = \<lparr>mem_usage_percent = 0, mem_used_gb = 0, mem_total_gb = 0\<rparr>,
           totals = \<lparr>total_carbon_grams = 57.5, total_carbon_kg = 0.0575,
                     runtime_hours = 1, total_energy_kwh = 0.115\<rparr>\<rparr>"
proof -
  let ?h = "example_host 3600 (three_loads 100 100 100)"
  let ?ns = "[''bytes_sent'' \<mapsto> PyInt 7, ''bytes_received'' \<mapsto> PyInt 9]"
  have a: "?ns ''total_bytes'' = None" by simp
  from carbon_metrics_missing_total_bytes[where network_stats = ?ns and h = ?h
      and self = example_calculator, OF a]
  obtain m self' h' where r: "get_carbon_metrics example_calculator ?h ?ns = Inr (m, self', h')"
    by blast
  from a r show ?thesis
    by (simp add: calc_defs returned_metrics_def example_host_def example_calculator_def Let_def)
qed

text \<open>
  C5. Whatever the stored total carbon, \<^verbatim>\<open>estimate_savings\<close> returns
  \<^verbatim>\<open>potential_reduction_percent\<close> 30 for \<^verbatim>\<open>'reduce_cpu'\<close>, 25 for
  \<^verbatim>\<open>'optimize_network'\<close> and 40 for \<^verbatim>\<open>'power_management'\<close>, with
  \<^verbatim>\<open>estimated_savings_grams\<close> the stored total times that percentage over 100; for any
  other kind the result is the \<^verbatim>\<open>'reduce_cpu'\<close> entry.
\<close>

theorem estimate_savings_table:
  "potential_reduction_percent (estimate_savings self ''reduce_cpu'') = 30
   \<and> estimated_savings_grams (estimate_savings self ''reduce_cpu'') = total_carbon self * 30 / 100
   \<and> potential_reduction_percent (estimate_savings self ''optimize_network'') = 25
   \<and> estimated_savings_grams (estimate_savings self ''optimize_network'')
        = total_carbon self * 25 / 100
   \<and> potential_reduction_percent (estimate_savings self ''power_management'') = 40
   \<and> estimated_savings_grams (estimate_savings self ''power_management'')
        = total_carbon self * 40 / 100
   \<and> (\<forall>k. k \<noteq> ''reduce_cpu'' \<and> k \<noteq> ''optimize_network'' \<and> k \<noteq> ''power_management''
         \<longrightarrow> estimate_savings self k = savings_reduce_cpu self
           \<and> estimate_savings self k = estimate_savings self ''reduce_cpu'')"
  by (simp add: estimate_savings_def savings_def savings_reduce_cpu_def
        savings_optimize_network_def savings_power_management_def)

text \<open>Witness for C5: a stored total of 200 grams and the unknown kind \<^verbatim>\<open>'turbo'\<close>.\<close>

theorem estimate_savings_table_witness:
  "estimate_savings \<lparr>start_time = 0, total_carbon = 200\<rparr> ''turbo''
     = \<lparr>name = ''Reduce CPU Usage'',
        description = ''Limit background processes and CPU-intensive tasks'',
        potential_reduction_percent = 30, estimated_savings_grams = 60\<rparr>
   \<and> estimated_savings_grams
        (estimate_savings \<lparr>start_time = 0, total_carbon = 200\<rparr> ''optimize_network'') = 50
   \<and> estimated_savings_grams
        (estimate_savings \<lparr>start_time = 0, total_carbon = 200\<rparr> ''power_management'') = 80"
  using estimate_savings_table[of "\<lparr>start_time = 0, total_carbon = 200\<rparr>"]
  by (simp add: savings_reduce_cpu_def)

text \<open>
  C7, as stated, fails: on a host whose successive CPU readings are 0, 100, 0 the call
  reports \<^verbatim>\<open>usage_percent\<close> 0 and \<^verbatim>\<open>power_watts\<close> 115, not 50 + 65 * (0 / 100).
\<close>

theorem cpu_power_not_from_reported_usage:
  "map_option cpu (returned_metrics
      (get_carbon_metrics example_calculator (example_host 3600 (three_loads 0 100 0)) Map.empty))
     = Some \<lparr>cpu_usage_percent = 0, cpu_power_watts = 115, cpu_energy_kwh = 1 / 20,
             cpu_carbon_grams = 25\<rparr>
   \<and> (115 :: real) \<noteq> 50 + 65 * (0 / 100)"
  by (simp add: calc_defs returned_metrics_def example_host_def example_calculator_def Let_def)

text \<open>
  C7, amended. A returning call of \<^verbatim>\<open>get_carbon_metrics\<close> takes three successive
  CPU readings: the first is reported as \<^verbatim>\<open>cpu.usage_percent\<close>, the second gives
  \<^verbatim>\<open>cpu.power_watts\<close> = 50 + 65 * (reading / 100), the third gives \<^verbatim>\<open>cpu.energy_kwh\<close>;
  so \<^verbatim>\<open>cpu.power_watts\<close> = 50 + 65 * (u / 100) for the reported \<open>u\<close> whenever the second
  reading equals the first. Two calls that agree on the runtime, on the three readings,
  on the memory reading and on the \<^verbatim>\<open>total_bytes\<close> entry return the same metrics.
\<close>

theorem carbon_metrics_cpu_readings:
  "(get_carbon_metrics self h ns = Inr (m, self', h') \<longrightarrow>
       cpu_usage_percent (cpu m) = cpu_load h (cpu_calls h)
     \<and> cpu_power_watts (cpu m) = 50 + 65 * (cpu_load h (cpu_calls h + 1) / 100)
     \<and> cpu_energy_kwh (cpu m)
         = (50 + 65 * (cpu_load h (cpu_calls h + 2) / 100))
             * ((clock h - start_time self) / 3600) / 1000
     \<and> (cpu_load h (cpu_calls h + 1) = cpu_load h (cpu_calls h) \<longrightarrow>
          cpu_power_watts (cpu m) = 50 + 65 * (cpu_usage_percent (cpu m) / 100)))
   \<and> (clock ha - start_time ca = clock hb - start_time cb
      \<and> cpu_load ha (cpu_calls ha) = cpu_load hb (cpu_calls hb)
      \<and> cpu_load ha (cpu_calls ha + 1) = cpu_load hb (cpu_calls hb + 1)
      \<and> cpu_load ha (cpu_calls ha + 2) = cpu_load hb (cpu_calls hb + 2)
      \<and> vmem ha = vmem hb
      \<and> nsa ''total_bytes'' = nsb ''total_bytes'' \<longrightarrow>
        returned_metrics (get_carbon_metrics ca ha nsa)
          = returned_metrics (get_carbon_metrics cb hb nsb))"
  by (auto simp: calc_defs returned_metrics_def Let_def
        split: sum.splits option.splits pyval.splits)

text \<open>
  Witness for C7: readings 40, 40, 0 one hour after construction, and a second call
  with another start time, another stored total and another snapshot that agrees on
  the runtime and on \<^verbatim>\<open>total_bytes\<close>.
\<close>

theorem carbon_metrics_cpu_readings_witness:
  "map_option cpu (returned_metrics
      (get_carbon_metrics example_calculator (example_host 3600 (three_loads 40 40 0))
         [''total_bytes'' \<mapsto> PyInt 5]))
     = Some \<lparr>cpu_usage_percent = 40, cpu_power_watts = 76, cpu_energy_kwh = 1 / 20,
             cpu_carbon_grams = 25\<rparr>
   \<and> (76 :: real) = 50 + 65 * (40 / 100)
   \<and> returned_metrics
        (get_carbon_metrics \<lparr>start_time = 100, total_carbon = 9\<rparr>
           (example_host 3700 (three_loads 40 40 0))
           [''total_bytes'' \<mapsto> PyInt 5, ''bytes_sent'' \<mapsto> PyInt 5])
     = returned_metrics
        (get_carbon_metrics example_calculator (example_host 3600 (three_loads 40 40 0))
           [''total_bytes'' \<mapsto> PyInt 5])"
  using carbon_metrics_cpu_readings[where self = example_calculator
      and h = "example_host 3600 (three_loads 40 40 0)"
      and ns = "[''total_bytes'' \<mapsto> PyInt 5]"
      and ca = "\<lparr>start_time = 100, total_carbon = 9\<rparr>"
      and ha = "example_host 3700 (three_loads 40 40 0)"
      and nsa = "[''total_bytes'' \<mapsto> PyInt 5, ''bytes_sent'' \<mapsto> PyInt 5]"
      and cb = example_calculator
      and hb = "example_host 3600 (three_loads 40 40 0)"
      and nsb = "[''total_bytes'' \<mapsto> PyInt 5]"]
  by (simp add: calc_defs returned_metrics_def example_host_def example_calculator_def Let_def)

subsection \<open>The monitor\<close>

text \<open>
  C2. Whether \<^verbatim>\<open>self.bpf\<close> is true (kernel-probe mode) or not (polling mode), the
  snapshot that \<^verbatim>\<open>get_stats\<close> returns has \<^verbatim>\<open>total_bytes\<close> equal to \<^verbatim>\<open>bytes_sent\<close>
  plus \<^verbatim>\<open>bytes_received\<close>.
\<close>

theorem get_stats_total_bytes:
  "\<exists>sent recv. fst (get_stats os self) ''bytes_sent'' = Some (PyInt sent)
     \<and> fst (get_stats os self) ''bytes_received'' = Some (PyInt recv)
     \<and> fst (get_stats os self) ''total_bytes'' = Some (PyInt (sent + recv))"
  by (simp add: get_stats_def Let_def)

text \<open>
  C8. Every event handled adds exactly 1 to \<^verbatim>\<open>packet_count\<close>. A send event (type 1,
  TCP, or type 3, UDP) adds its byte size to \<^verbatim>\<open>bytes_sent\<close>, and one packet and
  that byte size to the bucket of the emitting process, leaving the other buckets and
  \<^verbatim>\<open>bytes_received\<close> as they were. A receive event (type 2) adds exactly 1024 to
  \<^verbatim>\<open>bytes_received\<close> and changes neither \<^verbatim>\<open>bytes_sent\<close> nor any bucket.
\<close>

theorem handle_event_accounting:
  "packet_count (handle_event self ev) = packet_count self + 1
   \<and> (event_type ev = 1 \<or> event_type ev = 3 \<longrightarrow>
        bytes_sent (handle_event self ev) = bytes_sent self + uint (ev_bytes ev)
      \<and> bytes_received (handle_event self ev) = bytes_received self
      \<and> packets (bucket_of (process_stats (handle_event self ev)) (ev_comm ev))
          = packets (bucket_of (process_stats self) (ev_comm ev)) + 1
      \<and> bytes (bucket_of (process_stats (handle_event self ev)) (ev_comm ev))
          = bytes (bucket_of (process_stats self) (ev_comm ev)) + uint (ev_bytes ev)
      \<and> (\<forall>comm. comm \<noteq> ev_comm ev \<longrightarrow>
            process_stats (handle_event self ev) comm = process_stats self comm))
   \<and> (event_type ev = 2 \<longrightarrow>
        bytes_received (handle_event self ev) = bytes_received self + 1024
      \<and> bytes_sent (handle_event self ev) = bytes_sent self
      \<and> process_stats (handle_event self ev) = process_stats self)"
  by (simp add: handle_event_def Let_def bucket_of_def)

text \<open>
  Witness for C8: on a fresh monitor, a TCP send of 1500 bytes by \<^verbatim>\<open>curl\<close>, a UDP
  send of 80 bytes, and a receive event that claims 9000 bytes.
\<close>

theorem handle_event_accounting_witness:
  "handle_event BPFNetworkMonitor_init (example_event 1 1500)
     = BPFNetworkMonitor_init
         \<lparr>packet_count := 1, bytes_sent := 1500,
          process_stats := [''curl'' \<mapsto> \<lparr>packets = 1, bytes = 1500\<rparr>]\<rparr>
   \<and> handle_event BPFNetworkMonitor_init (example_event 3 80)
     = BPFNetworkMonitor_init
         \<lparr>packet_count := 1, bytes_sent := 80,
          process_stats := [''curl'' \<mapsto> \<lparr>packets = 1, bytes = 80\<rparr>]\<rparr>
   \<and> handle_event BPFNetworkMonitor_init (example_event 2 9000)
     = BPFNetworkMonitor_init\<lparr>packet_count := 1, bytes_received := 1024\<rparr>"
  using handle_event_accounting[of BPFNetworkMonitor_init "example_event 1 1500"]
    handle_event_accounting[of BPFNetworkMonitor_init "example_event 3 80"]
    handle_event_accounting[of BPFNetworkMonitor_init "example_event 2 9000"]
  by (simp add: handle_event_def example_event_def BPFNetworkMonitor_init_def bucket_of_def
        default_bucket_def Let_def)

text \<open>Event ingestion only adds: each layer of the poll loop keeps \<open>mon_le\<close>.\<close>

lemma mon_le_refl: "mon_le m m"
  by (simp add: mon_le_def)

lemma mon_le_trans: "mon_le a b \<Longrightarrow> mon_le b c \<Longrightarrow> mon_le a c"
  by (auto simp: mon_le_def)

lemma handle_event_mon_le: "mon_le self (handle_event self ev)"
  by (simp add: mon_le_def handle_event_def Let_def)

lemma perf_buffer_poll_mon_le: "mon_le self (perf_buffer_poll self batch)"
  unfolding perf_buffer_poll_def
proof (induction batch arbitrary: self)
  case Nil
  show ?case by (simp add: mon_le_refl)
next
  case (Cons ev batch)
  have "mon_le self (handle_event self ev)"
    by (rule handle_event_mon_le)
  moreover have "mon_le (handle_event self ev) (foldl handle_event (handle_event self ev) batch)"
    by (rule Cons.IH)
  ultimately show ?case by (auto intro: mon_le_trans)
qed

lemma poll_loop_mon_le: "mon_le self (poll_loop self batches)"
proof (induction batches arbitrary: self)
  case Nil
  show ?case by (simp add: mon_le_refl)
next
  case (Cons batch batches)
  show ?case
  proof (cases "running self")
    case True
    have "mon_le self (perf_buffer_poll self batch)"
      by (rule perf_buffer_poll_mon_le)
    moreover have "mon_le (perf_buffer_poll self batch)
        (poll_loop (perf_buffer_poll self batch) batches)"
      by (rule Cons.IH)
    ultimately show ?thesis using True by (auto intro: mon_le_trans)
  next
    case False
    then show ?thesis by (simp add: mon_le_refl)
  qed
qed

lemma process_events_mon_le: "mon_le self (process_events self batches)"
  by (simp add: process_events_def poll_loop_mon_le mon_le_refl)

text \<open>
  C6, as stated, fails in polling mode: a monitor without a probe returns the operating
  system's counters of the moment, so a reading of 10 bytes followed by a reading of 5
  bytes gives two successive snapshots whose byte counters decrease.
\<close>

theorem get_stats_polling_can_decrease:
  "\<not> counters_le (fst (get_stats (os_with 10 10) BPFNetworkMonitor_init))
       (fst (get_stats (os_with 5 5)
          (process_events (snd (get_stats (os_with 10 10) BPFNetworkMonitor_init)) [])))"
  by (simp add: get_stats_def BPFNetworkMonitor_init_def process_events_def is_true_def
        os_with_def counters_le_def field_le_def snapshot_int_def Let_def)

text \<open>
  \<^verbatim>\<open>get_stats\<close> is its three pieces run without interruption.
\<close>

lemma get_stats_split:
  "get_stats os self =
     (get_stats_snapshot (get_stats_connections os (get_stats_store os self)),
      get_stats_connections os (get_stats_store os self))"
  by (simp add: get_stats_def get_stats_snapshot_def get_stats_connections_def
        get_stats_store_def Let_def)

lemma interleaved_get_stats_alone: "interleaved_get_stats os [] [] self = get_stats os self"
  by (simp add: interleaved_get_stats_def run_def get_stats_split Let_def)

lemma run_Nil: "run self [] = self"
  by (simp add: run_def)

lemma run_Cons: "run self (s # steps) = run (other_step self s) steps"
  by (simp add: run_def)

text \<open>
  In kernel-probe mode no step of another thread lowers a counter; in polling mode a
  step that is not the store of another call leaves the counters as they are; no step
  changes the probe object, and in polling mode none changes the buckets.
\<close>

lemma other_step_mon_le: "is_true (bpf self) \<Longrightarrow> mon_le self (other_step self s)"
proof (cases s)
  case (Poll batch)
  then show ?thesis by (simp add: process_events_mon_le)
next
  case (Store os)
  assume "is_true (bpf self)"
  with Store show ?thesis by (simp add: get_stats_store_def mon_le_refl)
next
  case (Connections os)
  then show ?thesis by (simp add: get_stats_connections_def mon_le_def)
qed

lemma run_mon_le: "is_true (bpf self) \<Longrightarrow> mon_le self (run self steps)"
proof (induction steps arbitrary: self)
  case Nil
  show ?case by (simp add: run_Nil mon_le_refl)
next
  case (Cons s steps)
  have a: "mon_le self (other_step self s)"
    using Cons.prems by (rule other_step_mon_le)
  then have "is_true (bpf (other_step self s))"
    using Cons.prems by (simp add: mon_le_def)
  then have "mon_le (other_step self s) (run (other_step self s) steps)"
    by (rule Cons.IH)
  with a show ?case
    by (auto simp: run_Cons intro: mon_le_trans)
qed

lemma mon_same_refl: "mon_same m m"
  by (simp add: mon_same_def)

lemma mon_same_trans: "mon_same a b \<Longrightarrow> mon_same b c \<Longrightarrow> mon_same a c"
  by (simp add: mon_same_def)

lemma other_step_mon_same:
  "\<not> is_true (bpf self) \<Longrightarrow> \<not> is_store s \<Longrightarrow> mon_same self (other_step self s)"
  by (cases s) (simp_all add: process_events_def get_stats_connections_def mon_same_def)

lemma run_mon_same:
  "\<not> is_true (bpf self) \<Longrightarrow> no_store steps \<Longrightarrow> mon_same self (run self steps)"
proof (induction steps arbitrary: self)
  case Nil
  show ?case by (simp add: run_Nil mon_same_refl)
next
  case (Cons s steps)
  from Cons.prems(2) have ns: "\<not> is_store s" and rest: "no_store steps"
    by (auto simp: no_store_def split: if_splits)
  have a: "mon_same self (other_step self s)"
    using Cons.prems(1) ns by (rule other_step_mon_same)
  then have "\<not> is_true (bpf (other_step self s))"
    using Cons.prems(1) by (simp add: mon_same_def)
  then have "mon_same (other_step self s) (run (other_step self s) steps)"
    using rest by (rule Cons.IH)
  with a show ?case
    by (auto simp: run_Cons intro: mon_same_trans)
qed

lemma other_step_bpf: "bpf (other_step self s) = bpf self"
proof (cases s)
  case (Poll batch)
  then show ?thesis
    using process_events_mon_le[of self "[batch]"] by (simp add: mon_le_def)
next
  case (Store os)
  then show ?thesis by (simp add: get_stats_store_def Let_def)
next
  case (Connections os)
  then show ?thesis by (simp add: get_stats_connections_def)
qed

lemma run_bpf: "bpf (run self steps) = bpf self"
  by (induction steps arbitrary: self) (simp_all add: run_Nil run_Cons other_step_bpf)

lemma other_step_process_stats:
  "\<not> is_true (bpf self) \<Longrightarrow> process_stats (other_step self s) = process_stats self"
  by (cases s)
    (simp_all add: process_events_def get_stats_store_def get_stats_connections_def Let_def)

lemma run_process_stats:
  "\<not> is_true (bpf self) \<Longrightarrow> process_stats (run self steps) = process_stats self"
proof (induction steps arbitrary: self)
  case Nil
  show ?case by (simp add: run_Nil)
next
  case (Cons s steps)
  have "\<not> is_true (bpf (other_step self s))"
    using Cons.prems by (simp add: other_step_bpf)
  then have "process_stats (run (other_step self s) steps) = process_stats (other_step self s)"
    by (rule Cons.IH)
  then show ?case
    using Cons.prems by (simp add: run_Cons other_step_process_stats)
qed

lemma interleaved_probe:
  assumes "is_true (bpf self)"
  shows "mon_le self (snd (interleaved_get_stats os xs ys self))"
proof -
  let ?a = "get_stats_store os self"
  let ?b = "run ?a xs"
  let ?c = "get_stats_connections os ?b"
  have 1: "mon_le self ?a" using assms by (simp add: get_stats_store_def mon_le_refl)
  then have ta: "is_true (bpf ?a)" using assms by (simp add: mon_le_def)
  have 2: "mon_le ?a ?b" using ta by (rule run_mon_le)
  then have tb: "is_true (bpf ?b)" using ta by (simp add: mon_le_def)
  have 3: "mon_le ?b ?c" by (simp add: get_stats_connections_def mon_le_def)
  then have tc: "is_true (bpf ?c)" using tb by (simp add: mon_le_def)
  have 4: "mon_le ?c (run ?c ys)" using tc by (rule run_mon_le)
  from 1 2 3 4 show ?thesis
    by (auto simp: interleaved_get_stats_def Let_def intro: mon_le_trans)
qed

lemma interleaved_snapshot:
  "snapshot_int (fst (interleaved_get_stats os xs ys self)) ''bytes_sent''
     = Some (bytes_sent (snd (interleaved_get_stats os xs ys self)))
   \<and> snapshot_int (fst (interleaved_get_stats os xs ys self)) ''bytes_received''
     = Some (bytes_received (snd (interleaved_get_stats os xs ys self)))
   \<and> snapshot_int (fst (interleaved_get_stats os xs ys self)) ''packet_count''
     = Some (packet_count (snd (interleaved_get_stats os xs ys self)))"
  by (simp add: interleaved_get_stats_def get_stats_snapshot_def snapshot_int_def Let_def)

lemma interleaved_polling:
  assumes "\<not> is_true (bpf self)" and "no_store xs" and "no_store ys"
  shows "bytes_sent (snd (interleaved_get_stats os xs ys self)) = os_bytes_sent (net_io_counters os)
   \<and> bytes_received (snd (interleaved_get_stats os xs ys self)) = os_bytes_recv (net_io_counters os)
   \<and> packet_count (snd (interleaved_get_stats os xs ys self))
       = os_packets_sent (net_io_counters os) + os_packets_recv (net_io_counters os)"
proof -
  let ?a = "get_stats_store os self"
  let ?b = "run ?a xs"
  let ?c = "get_stats_connections os ?b"
  have fa: "\<not> is_true (bpf ?a)" using assms(1) by (simp add: get_stats_store_def Let_def)
  have 2: "mon_same ?a ?b" using fa assms(2) by (rule run_mon_same)
  then have fb: "\<not> is_true (bpf ?b)" using fa by (simp add: mon_same_def)
  have 3: "mon_same ?b ?c" by (simp add: get_stats_connections_def mon_same_def)
  then have fc: "\<not> is_true (bpf ?c)" using fb by (simp add: mon_same_def)
  have 4: "mon_same ?c (run ?c ys)" using fc assms(3) by (rule run_mon_same)
  have "mon_same ?a (run ?c ys)"
    using 2 3 4 by (blast intro: mon_same_trans)
  then show ?thesis
    using assms(1) by (simp add: interleaved_get_stats_def mon_same_def get_stats_store_def Let_def)
qed

lemma interleaved_bpf: "bpf (snd (interleaved_get_stats os xs ys self)) = bpf self"
  by (simp add: interleaved_get_stats_def Let_def run_bpf get_stats_connections_def
        get_stats_store_def)

text \<open>
  C6, amended. Take two successive \<^verbatim>\<open>get_stats\<close> calls on a monitor that is not
  restarted, with any steps of other threads (polls of the event thread, stores and
  assignments of other \<^verbatim>\<open>get_stats\<close> calls) during and between them. In
  kernel-probe mode (\<^verbatim>\<open>self.bpf\<close> true) the returned \<^verbatim>\<open>bytes_sent\<close>,
  \<^verbatim>\<open>bytes_received\<close> and \<^verbatim>\<open>packet_count\<close> do not decrease. In polling mode, a call
  during which no other \<^verbatim>\<open>get_stats\<close> call stores its reading returns the operating
  system's counters as read in that call; so for two such calls the returned values do
  not decrease exactly when the counters read by the second call are not below those
  read by the first.
\<close>

theorem get_stats_counters_monotone:
  "(is_true (bpf self) \<longrightarrow>
      counters_le (fst (interleaved_get_stats os1 xs1 ys1 self))
        (fst (interleaved_get_stats os2 xs2 ys2
           (run (snd (interleaved_get_stats os1 xs1 ys1 self)) between))))
   \<and> (\<not> is_true (bpf self) \<and> no_store xs1 \<and> no_store ys1 \<and> no_store xs2 \<and> no_store ys2 \<longrightarrow>
        snapshot_int (fst (interleaved_get_stats os1 xs1 ys1 self)) ''bytes_sent''
          = Some (os_bytes_sent (net_io_counters os1))
      \<and> snapshot_int (fst (interleaved_get_stats os1 xs1 ys1 self)) ''bytes_received''
          = Some (os_bytes_recv (net_io_counters os1))
      \<and> snapshot_int (fst (interleaved_get_stats os1 xs1 ys1 self)) ''packet_count''
          = Some (os_packets_sent (net_io_counters os1) + os_packets_recv (net_io_counters os1))
      \<and> (counters_le (fst (interleaved_get_stats os1 xs1 ys1 self))
            (fst (interleaved_get_stats os2 xs2 ys2
               (run (snd (interleaved_get_stats os1 xs1 ys1 self)) between)))
          \<longleftrightarrow> os_counters_le os1 os2))"
proof (intro conjI impI)
  let ?A = "interleaved_get_stats os1 xs1 ys1 self"
  let ?m = "run (snd ?A) between"
  let ?B = "interleaved_get_stats os2 xs2 ys2 ?m"
  assume probe: "is_true (bpf self)"
  have 1: "mon_le self (snd ?A)" using probe by (rule interleaved_probe)
  then have pa: "is_true (bpf (snd ?A))" using probe by (simp add: mon_le_def)
  have 2: "mon_le (snd ?A) ?m" using pa by (rule run_mon_le)
  then have pm: "is_true (bpf ?m)" using pa by (simp add: mon_le_def)
  have 3: "mon_le ?m (snd ?B)" using pm by (rule interleaved_probe)
  have "mon_le (snd ?A) (snd ?B)" using 2 3 by (rule mon_le_trans)
  then show "counters_le (fst ?A) (fst ?B)"
    using interleaved_snapshot[of os1 xs1 ys1 self] interleaved_snapshot[of os2 xs2 ys2 ?m]
    by (simp add: counters_le_def field_le_def mon_le_def)
next
  let ?A = "interleaved_get_stats os1 xs1 ys1 self"
  let ?m = "run (snd ?A) between"
  let ?B = "interleaved_get_stats os2 xs2 ys2 ?m"
  assume h: "\<not> is_true (bpf self) \<and> no_store xs1 \<and> no_store ys1 \<and> no_store xs2 \<and> no_store ys2"
  then have poll: "\<not> is_true (bpf self)" by simp
  have pm: "\<not> is_true (bpf ?m)" using poll by (simp add: run_bpf interleaved_bpf)
  have a: "bytes_sent (snd ?A) = os_bytes_sent (net_io_counters os1)
     \<and> bytes_received (snd ?A) = os_bytes_recv (net_io_counters os1)
     \<and> packet_count (snd ?A)
         = os_packets_sent (net_io_counters os1) + os_packets_recv (net_io_counters os1)"
    using h by (intro interleaved_polling) simp_all
  have b: "bytes_sent (snd ?B) = os_bytes_sent (net_io_counters os2)
     \<and> bytes_received (snd ?B) = os_bytes_recv (net_io_counters os2)
     \<and> packet_count (snd ?B)
         = os_packets_sent (net_io_counters os2) + os_packets_recv (net_io_counters os2)"
    using pm h by (intro interleaved_polling) simp_all
  show "snapshot_int (fst ?A) ''bytes_sent'' = Some (os_bytes_sent (net_io_counters os1))"
    using a interleaved_snapshot[of os1 xs1 ys1 self] by simp
  show "snapshot_int (fst ?A) ''bytes_received'' = Some (os_bytes_recv (net_io_counters os1))"
    using a interleaved_snapshot[of os1 xs1 ys1 self] by simp
  show "snapshot_int (fst ?A) ''packet_count''
      = Some (os_packets_sent (net_io_counters os1) + os_packets_recv (net_io_counters os1))"
    using a interleaved_snapshot[of os1 xs1 ys1 self] by simp
  show "counters_le (fst ?A) (fst ?B) \<longleftrightarrow> os_counters_le os1 os2"
    using a b interleaved_snapshot[of os1 xs1 ys1 self] interleaved_snapshot[of os2 xs2 ys2 ?m]
    by (simp add: counters_le_def field_le_def os_counters_le_def)
qed

text \<open>
  Witness for C6: a running monitor with a true probe object, with a poll and the store
  of another call during the first call and a poll between the calls; and a monitor
  without a probe on an operating system whose counters grow from 5 to 10, with no
  store during either call and the store of another call between them.
\<close>

theorem get_stats_counters_monotone_witness:
  "is_true (bpf (BPFNetworkMonitor_init\<lparr>running := True, bpf := Some (BPF True)\<rparr>))
   \<and> counters_le
       (fst (interleaved_get_stats (os_with 0 0) [Poll [example_event 1 1500]]
          [Store (os_with 7 7)]
          (BPFNetworkMonitor_init\<lparr>running := True, bpf := Some (BPF True)\<rparr>)))
       (fst (interleaved_get_stats (os_with 0 0) [] []
          (run (snd (interleaved_get_stats (os_with 0 0) [Poll [example_event 1 1500]]
                  [Store (os_with 7 7)]
                  (BPFNetworkMonitor_init\<lparr>running := True, bpf := Some (BPF True)\<rparr>)))
             [Poll [example_event 2 0]])))
   \<and> \<not> is_true (bpf BPFNetworkMonitor_init)
   \<and> no_store [Connections (os_with 0 0)] \<and> no_store [Poll [example_event 1 1500]]
   \<and> no_store []
   \<and> os_counters_le (os_with 5 5) (os_with 10 10)
   \<and> snapshot_int
        (fst (interleaved_get_stats (os_with 5 5) [Connections (os_with 0 0)]
           [Poll [example_event 1 1500]] BPFNetworkMonitor_init)) ''bytes_sent'' = Some 5
   \<and> counters_le
       (fst (interleaved_get_stats (os_with 5 5) [Connections (os_with 0 0)]
          [Poll [example_event 1 1500]] BPFNetworkMonitor_init))
       (fst (interleaved_get_stats (os_with 10 10) [] []
          (run (snd (interleaved_get_stats (os_with 5 5) [Connections (os_with 0 0)]
                  [Poll [example_event 1 1500]] BPFNetworkMonitor_init))
             [Store (os_with 99 99)])))"
proof -
  let ?k = "BPFNetworkMonitor_init\<lparr>running := True, bpf := Some (BPF True)\<rparr>"
  have a: "is_true (bpf ?k)"
    by (simp add: is_true_def)
  have b: "\<not> is_true (bpf BPFNetworkMonitor_init)"
    by (simp add: is_true_def BPFNetworkMonitor_init_def)
  have c: "no_store [Connections (os_with 0 0)]" "no_store [Poll [example_event 1 1500]]"
    "no_store []"
    by (simp_all add: no_store_def)
  have d: "os_counters_le (os_with 5 5) (os_with 10 10)"
    by (simp add: os_counters_le_def os_with_def)
  have e: "os_bytes_sent (net_io_counters (os_with 5 5)) = 5"
    by (simp add: os_with_def)
  show ?thesis
    using a b c d e
      get_stats_counters_monotone[of ?k "os_with 0 0" "[Poll [example_event 1 1500]]"
        "[Store (os_with 7 7)]" "os_with 0 0" "[]" "[]" "[Poll [example_event 2 0]]"]
      get_stats_counters_monotone[of BPFNetworkMonitor_init "os_with 5 5"
        "[Connections (os_with 0 0)]" "[Poll [example_event 1 1500]]" "os_with 10 10"
        "[]" "[]" "[Store (os_with 99 99)]"]
    by simp
qed

text \<open>
  Without that condition the polling clause fails: a call that reads 200 and is
  overlapped by the store of a call that read 100 returns 100.
\<close>

lemma overlapped_call_returns_other_reading:
  "snapshot_int
     (fst (interleaved_get_stats (os_with 200 200) [Store (os_with 100 100)] []
        BPFNetworkMonitor_init)) ''bytes_sent'' = Some 100"
  by (simp add: interleaved_get_stats_def run_def get_stats_store_def get_stats_connections_def
        get_stats_snapshot_def snapshot_int_def os_with_def BPFNetworkMonitor_init_def
        is_true_def Let_def)

text \<open>
  \<^verbatim>\<open>start_monitoring\<close> always returns. When a step of its \<^verbatim>\<open>try\<close> block raises it
  returns \<^verbatim>\<open>False\<close>; \<^verbatim>\<open>self.bpf\<close> is then \<^verbatim>\<open>None\<close> or a probe object with an empty
  table cache, which is not true either.
\<close>

lemma start_monitoring_returns:
  "\<exists>ok self'. start_monitoring be self = Inr (ok, self')"
  by (auto simp: start_monitoring_def split: prod.splits option.splits)

lemma start_monitoring_try_effect:
  "mon_same self (snd (start_monitoring_try be self))
   \<or> (process_stats (snd (start_monitoring_try be self)) = process_stats self
       \<and> bpf (snd (start_monitoring_try be self)) = Some (BPF False))"
  by (simp add: start_monitoring_try_def mon_same_def Let_def split: option.splits)

lemma start_monitoring_try_polling:
  assumes "\<not> is_true (bpf self)"
  shows "\<not> is_true (bpf (snd (start_monitoring_try be self)))
    \<and> process_stats (snd (start_monitoring_try be self)) = process_stats self"
  using assms start_monitoring_try_effect[of self be]
  by (auto simp: mon_same_def is_true_def)

lemma start_monitoring_failure:
  assumes "compile_raises be \<noteq> None \<or> attach_raises be ''tcp_sendmsg'' \<noteq> None
      \<or> attach_raises be ''tcp_recvmsg'' \<noteq> None \<or> attach_raises be ''udp_sendmsg'' \<noteq> None
      \<or> thread_raises be \<noteq> None"
  shows "start_monitoring be self = Inr (False, snd (start_monitoring_try be self))"
  using assms
  by (auto simp: start_monitoring_def start_monitoring_try_def Let_def split: option.splits)

lemma get_stats_mirrors:
  "\<not> is_true (bpf self) \<Longrightarrow> process_stats self = Map.empty \<Longrightarrow>
   fst (get_stats os self) = mirrored_snapshot os"
  by (simp add: get_stats_def mirrored_snapshot_def Let_def)

text \<open>
  C4. On a monitor constructed and not started before, whatever \<^verbatim>\<open>get_stats\<close> calls
  have run on it: when the construction of the probe object, one of the three
  attachments or the start of the event thread raises, \<^verbatim>\<open>start_monitoring\<close> returns
  \<^verbatim>\<open>False\<close> (it does not raise), and a later \<^verbatim>\<open>get_stats\<close> call returns the snapshot
  with all six keys whose packet and byte counters are the operating system's counters
  as read in that call.
\<close>

theorem start_monitoring_failure_falls_back:
  assumes "compile_raises be \<noteq> None \<or> attach_raises be ''tcp_sendmsg'' \<noteq> None
      \<or> attach_raises be ''tcp_recvmsg'' \<noteq> None \<or> attach_raises be ''udp_sendmsg'' \<noteq> None
      \<or> thread_raises be \<noteq> None"
  shows "\<exists>self1. start_monitoring be (run BPFNetworkMonitor_init before) = Inr (False, self1)
     \<and> fst (get_stats os (run self1 after)) = mirrored_snapshot os"
proof -
  let ?m0 = "run BPFNetworkMonitor_init before"
  let ?m1 = "snd (start_monitoring_try be ?m0)"
  have i: "\<not> is_true (bpf BPFNetworkMonitor_init)"
    by (simp add: is_true_def BPFNetworkMonitor_init_def)
  then have p0: "\<not> is_true (bpf ?m0)"
    by (simp add: run_bpf)
  have s0: "process_stats ?m0 = Map.empty"
    using run_process_stats[OF i, of before] by (simp add: BPFNetworkMonitor_init_def)
  have p1: "\<not> is_true (bpf ?m1)" and s1: "process_stats ?m1 = Map.empty"
    using start_monitoring_try_polling[OF p0, of be] s0 by simp_all
  have p2: "\<not> is_true (bpf (run ?m1 after))"
    using p1 by (simp add: run_bpf)
  have s2: "process_stats (run ?m1 after) = Map.empty"
    using run_process_stats[OF p1, of after] s1 by simp
  have "fst (get_stats os (run ?m1 after)) = mirrored_snapshot os"
    using p2 s2 by (rule get_stats_mirrors)
  moreover have "start_monitoring be ?m0 = Inr (False, ?m1)"
    using assms by (rule start_monitoring_failure)
  ultimately show ?thesis by blast
qed

text \<open>
  Witness for C4: on a fresh monitor, a library whose second attachment raises and a
  library that cannot compile the program, each followed by a \<^verbatim>\<open>get_stats\<close> call on an
  operating system that has counted 4096 bytes sent and 512 received.
\<close>

theorem start_monitoring_failure_falls_back_witness:
  "start_monitoring (attach_failing_backend ''tcp_recvmsg'') BPFNetworkMonitor_init
     = Inr (False, BPFNetworkMonitor_init\<lparr>bpf := Some (BPF False)\<rparr>)
   \<and> fst (get_stats (os_with 4096 512) (BPFNetworkMonitor_init\<lparr>bpf := Some (BPF False)\<rparr>))
     = [''packet_count'' \<mapsto> PyInt 0, ''bytes_sent'' \<mapsto> PyInt 4096,
        ''bytes_received'' \<mapsto> PyInt 512, ''total_bytes'' \<mapsto> PyInt 4608,
        ''active_connections'' \<mapsto> PyInt 0, ''process_stats'' \<mapsto> PyStats Map.empty]
   \<and> start_monitoring compile_failing_backend BPFNetworkMonitor_init
     = Inr (False, BPFNetworkMonitor_init)
   \<and> fst (get_stats (os_with 4096 512) BPFNetworkMonitor_init)
     = [''packet_count'' \<mapsto> PyInt 0, ''bytes_sent'' \<mapsto> PyInt 4096,
        ''bytes_received'' \<mapsto> PyInt 512, ''total_bytes'' \<mapsto> PyInt 4608,
        ''active_connections'' \<mapsto> PyInt 0, ''process_stats'' \<mapsto> PyStats Map.empty]"
proof -
  have a: "compile_raises (attach_failing_backend ''tcp_recvmsg'') \<noteq> None
      \<or> attach_raises (attach_failing_backend ''tcp_recvmsg'') ''tcp_sendmsg'' \<noteq> None
      \<or> attach_raises (attach_failing_backend ''tcp_recvmsg'') ''tcp_recvmsg'' \<noteq> None
      \<or> attach_raises (attach_failing_backend ''tcp_recvmsg'') ''udp_sendmsg'' \<noteq> None
      \<or> thread_raises (attach_failing_backend ''tcp_recvmsg'') \<noteq> None"
    by (simp add: attach_failing_backend_def)
  have b: "compile_raises compile_failing_backend \<noteq> None
      \<or> attach_raises compile_failing_backend ''tcp_sendmsg'' \<noteq> None
      \<or> attach_raises compile_failing_backend ''tcp_recvmsg'' \<noteq> None
      \<or> attach_raises compile_failing_backend ''udp_sendmsg'' \<noteq> None
      \<or> thread_raises compile_failing_backend \<noteq> None"
    by (simp add: compile_failing_backend_def)
  show ?thesis
    using start_monitoring_failure_falls_back[OF a, of "[]" "os_with 4096 512" "[]"]
      start_monitoring_failure_falls_back[OF b, of "[]" "os_with 4096 512" "[]"]
    by (simp add: run_def start_monitoring_def start_monitoring_try_def
          attach_failing_backend_def compile_failing_backend_def mirrored_snapshot_def
          os_with_def BPFNetworkMonitor_init_def Let_def)
qed

text \<open>
  The \<^verbatim>\<open>try\<close> block never raises on what \<^verbatim>\<open>process_iter\<close> yields, so every yielded
  process is appended, vanished processes having been dropped by \<^verbatim>\<open>process_iter\<close>.
\<close>

lemma process_iter_loop_read_info:
  "process_iter_loop acc (map read_info infos) = Inr (acc @ map entry_of infos)"
  by (induction infos arbitrary: acc) (simp_all add: read_info_def entry_of_def)

text \<open>
  C9 at a failing input. Three processes are enumerated: one with CPU usage 2.5, one
  that vanishes, and one whose CPU usage could not be read and is \<^verbatim>\<open>None\<close>. The
  vanished one is skipped, the inaccessible one is appended, and \<^verbatim>\<open>sorted\<close> raises
  \<^verbatim>\<open>TypeError\<close> to the caller. Alone, the inaccessible process is returned, not
  skipped.
\<close>

theorem get_process_list_inaccessible_raises:
  "get_process_list [Present (example_proc 1 (Some 2.5)), Vanished, Present (example_proc 2 None)]
     = Inl TypeError
   \<and> get_process_list [Vanished, Present (example_proc 2 None)]
     = Inr [entry_of (example_proc 2 None)]"
  by (simp add: get_process_list_def read_info_def sorted_by_cpu_desc_def
        entry_of_def example_proc_def)

text \<open>
  When the CPU usage of every process that has not vanished could be read, the call
  returns at most 20 entries in descending order of CPU usage.
\<close>

lemma sorted_by_cpu_desc_known:
  assumes "list_all (\<lambda>x. pcpu x \<noteq> None) ps"
  shows "\<exists>qs. sorted_by_cpu_desc ps = Inr qs \<and> cpu_descending qs"
proof (cases "length ps \<le> 1")
  case True
  then have "sorted_wrt (\<lambda>a b. the (pcpu a) \<ge> the (pcpu b)) ps"
    by (cases ps) (auto simp: Suc_le_eq)
  with True assms show ?thesis
    by (simp add: sorted_by_cpu_desc_def cpu_descending_def)
next
  case False
  have "sorted (map (\<lambda>x. - the (pcpu x)) (sort_key (\<lambda>x. - the (pcpu x)) ps))"
    by (rule sorted_sort_key)
  then have "sorted_wrt (\<lambda>a b. the (pcpu a) \<ge> the (pcpu b)) (sort_key (\<lambda>x. - the (pcpu x)) ps)"
    by (simp add: sorted_wrt_map)
  moreover have "list_all (\<lambda>x. pcpu x \<noteq> None) (sort_key (\<lambda>x. - the (pcpu x)) ps)"
    using assms by (simp add: list_all_iff)
  moreover have "\<not> list_ex (\<lambda>x. pcpu x = None) ps"
    using assms by (auto simp: list_all_iff list_ex_iff)
  ultimately show ?thesis
    using False by (simp add: sorted_by_cpu_desc_def cpu_descending_def)
qed

lemma get_process_list_known_cpu:
  assumes "list_all (\<lambda>i. info_cpu_percent i \<noteq> None) (process_iter table)"
  shows "\<exists>ps. get_process_list table = Inr ps \<and> cpu_descending ps \<and> length ps \<le> 20"
proof -
  have "list_all (\<lambda>x. pcpu x \<noteq> None) (map entry_of (process_iter table))"
    using assms by (simp add: list_all_iff entry_of_def)
  then obtain qs where q: "sorted_by_cpu_desc (map entry_of (process_iter table)) = Inr qs"
      and d: "cpu_descending qs"
    using sorted_by_cpu_desc_known by blast
  have "cpu_descending (take 20 qs)"
    using d by (auto simp: cpu_descending_def list_all_iff sorted_wrt_take dest: in_set_takeD)
  then show ?thesis
    using q by (simp add: get_process_list_def process_iter_loop_read_info)
qed

subsection \<open>The history series\<close>

text \<open>
  On the snapshot of \<^verbatim>\<open>get_stats\<close> neither \<^verbatim>\<open>get_carbon_metrics\<close> nor the
  subscript \<^verbatim>\<open>net_stats['total_bytes']\<close> raises, so a cycle in which no system query
  fails appends its point to all five series and trims them.
\<close>

lemma get_stats_total_bytes_int:
  "\<exists>n. fst (get_stats os self) ''total_bytes'' = Some (PyInt n)"
  by (simp add: get_stats_def Let_def)

lemma get_carbon_metrics_int:
  "network_stats ''total_bytes'' = Some (PyInt n) \<Longrightarrow>
   \<exists>r. get_carbon_metrics self h network_stats = Inr r"
  by (simp add: calc_defs Let_def split: prod.splits)

lemma collect_cycle_point:
  "collect_cycle hist c =
     (case cycle_point c of None \<Rightarrow> hist | Some p \<Rightarrow> trim_history (append_point hist p))"
proof (cases "sys_raises c")
  case (Some e)
  then show ?thesis
    by (simp add: collect_cycle_def collect_data_try_def cycle_point_def)
next
  case None
  obtain d m where gs: "get_stats (cy_os c) (cy_monitor c) = (d, m)"
    by (cases "get_stats (cy_os c) (cy_monitor c)")
  obtain n where n: "d ''total_bytes'' = Some (PyInt n)"
    using get_stats_total_bytes_int[of "cy_os c" "cy_monitor c"] gs by auto
  obtain mt c1 h1 where r: "get_carbon_metrics (cy_calculator c) (cy_host c) d = Inr (mt, c1, h1)"
    using get_carbon_metrics_int[of d n "cy_calculator c" "cy_host c", OF n]
    by (metis prod_cases3)
  show ?thesis
    using None gs n r
    by (simp add: collect_cycle_def collect_data_try_def cycle_point_def subscript_def
          as_number_def append_point_def trim_history_def Let_def)
qed

lemma keep_last_100_snoc: "keep_last_100 (last_100 xs @ [x]) = last_100 (xs @ [x])"
proof (cases "100 \<le> length xs")
  case True
  then have "Suc (length xs - 100) = length xs - 99"
    by arith
  with True show ?thesis
    by (simp add: keep_last_100_def last_100_def)
next
  case False
  then show ?thesis
    by (simp add: keep_last_100_def last_100_def)
qed

lemma trim_append_history_of:
  "trim_history (append_point (history_of pts) p) = history_of (pts @ [p])"
  by (simp add: trim_history_def append_point_def history_of_def keep_last_100_snoc)

lemma collect_cycle_history_of:
  "collect_cycle (history_of pts) c = history_of (pts @ appended_points [c])"
  by (simp add: collect_cycle_point appended_points_def trim_append_history_of
        split: option.splits)

lemma appended_points_Cons:
  "appended_points (c # cs) = appended_points [c] @ appended_points cs"
  by (simp add: appended_points_def split: option.splits)

lemma collect_data_history_of:
  "collect_data (history_of pts) cs = history_of (pts @ appended_points cs)"
proof (induction cs arbitrary: pts)
  case Nil
  show ?case by (simp add: appended_points_def)
next
  case (Cons c cs)
  have "collect_data (history_of pts) (c # cs)
      = collect_data (history_of (pts @ appended_points [c])) cs"
    by (simp add: collect_cycle_history_of)
  also have "\<dots> = history_of ((pts @ appended_points [c]) @ appended_points cs)"
    by (rule Cons.IH)
  finally show ?case
    by (simp add: appended_points_Cons[of c cs])
qed

lemma history_of_Nil: "history_of [] = historical_data_init"
  by (simp add: history_of_def historical_data_init_def last_100_def)

lemma length_last_100: "length (last_100 xs) = min 100 (length xs)"
  by (simp add: last_100_def)

text \<open>
  C3. After any number of collection cycles from the empty history, each of the five
  series is the last 100 (all, while there are fewer) of the values appended to it, in
  arrival order; so each holds at most 100 entries, and exactly 100 once more than 100
  points have been appended.
\<close>

theorem history_holds_last_100:
  "timestamps (collect_data historical_data_init cs)
     = last_100 (map pt_timestamp (appended_points cs))
   \<and> cpu_usage (collect_data historical_data_init cs)
     = last_100 (map pt_cpu_usage (appended_points cs))
   \<and> network_bytes (collect_data historical_data_init cs)
     = last_100 (map pt_network_mb (appended_points cs))
   \<and> carbon_emissions (collect_data historical_data_init cs)
     = last_100 (map pt_carbon_grams (appended_points cs))
   \<and> energy_consumption (collect_data historical_data_init cs)
     = last_100 (map pt_energy_wh (appended_points cs))
   \<and> length (timestamps (collect_data historical_data_init cs)) \<le> 100
   \<and> length (cpu_usage (collect_data historical_data_init cs)) \<le> 100
   \<and> length (network_bytes (collect_data historical_data_init cs)) \<le> 100
   \<and> length (carbon_emissions (collect_data historical_data_init cs)) \<le> 100
   \<and> length (energy_consumption (collect_data historical_data_init cs)) \<le> 100
   \<and> (100 < length (appended_points cs) \<longrightarrow>
        length (timestamps (collect_data historical_data_init cs)) = 100
      \<and> length (cpu_usage (collect_data historical_data_init cs)) = 100
      \<and> length (network_bytes (collect_data historical_data_init cs)) = 100
      \<and> length (carbon_emissions (collect_data historical_data_init cs)) = 100
      \<and> length (energy_consumption (collect_data historical_data_init cs)) = 100)"
proof -
  have "collect_data historical_data_init cs = history_of (appended_points cs)"
    using collect_data_history_of[of "[]" cs] by (simp add: history_of_Nil)
  then show ?thesis
    by (simp add: history_of_def length_last_100)
qed

text \<open>
  Witness for C3: 101 cycles stamped 0 to 100. All of them append, and the timestamps
  series ends as the 100 stamps 1 to 100, the stamp 0 evicted.
\<close>

lemma cycle_point_example: "cycle_point (example_cycle n) = Some (example_point n)"
  by (simp add: cycle_point_def example_cycle_def example_point_def get_stats_def
        BPFNetworkMonitor_init_def is_true_def os_with_def calc_defs example_host_def
        example_calculator_def Let_def)

lemma appended_points_example:
  "appended_points (map example_cycle ns) = map example_point ns"
  by (induction ns) (simp_all add: appended_points_def cycle_point_example)

theorem history_holds_last_100_witness:
  "100 < length (appended_points (map example_cycle [0..<101]))
   \<and> timestamps (collect_data historical_data_init (map example_cycle [0..<101]))
     = map (\<lambda>n. [char_of n]) [1..<101]
   \<and> length (timestamps (collect_data historical_data_init (map example_cycle [0..<101]))) = 100"
  using history_holds_last_100[of "map example_cycle [0..<101]"]
  by (simp add: appended_points_example last_100_def example_point_def drop_map comp_def
        del: upt_Suc)

end
